theory Spec2Isabelle
  imports Main
begin

section \<open>Python values shared by the models\<close>

text \<open>
  A Python \<open>str\<close> is a sequence of code points. The models use \<open>string\<close> with one
  \<open>char\<close> per code point, which covers the code points below 256 (the Latin-1 block);
  \<open>bytes\<close> values are \<open>string\<close>s as well, one \<open>char\<close> per byte. A \<open>datetime\<close> is the
  number of microseconds since the epoch, a \<open>timedelta\<close> a number of microseconds.
  An exception that leaves a function is the \<open>Inl\<close> of its result.
\<close>

datatype py_error =
    ConnectionError string
  | ValueError string
  | DuplicateKeyError
  | PyException string

type_synonym datetime = int

fun str_of_error :: "py_error \<Rightarrow> string" where
  "str_of_error (ConnectionError s) = s"
| "str_of_error (ValueError s) = s"
| "str_of_error DuplicateKeyError = ''E11000 duplicate key error''"
| "str_of_error (PyException s) = s"

section \<open>config.py\<close>

definition EMAIL_DOMAIN :: string where
  "EMAIL_DOMAIN = ''seveton.site''"

definition EMAIL_EXPIRY_TIME :: int where
  "EMAIL_EXPIRY_TIME = 3600 * 1000000"

definition EMAIL_PREFIX_LENGTH :: nat where
  "EMAIL_PREFIX_LENGTH = 6"

definition EMAIL_RANDOM_LENGTH :: nat where
  "EMAIL_RANDOM_LENGTH = 8"

definition EMAIL_MAX_GENERATION_ATTEMPTS :: nat where
  "EMAIL_MAX_GENERATION_ATTEMPTS = 10"

definition EMAIL_ALLOWED_CHARS :: string where
  "EMAIL_ALLOWED_CHARS = ''abcdefghijklmnopqrstuvwxyz0123456789''"

section \<open>database/mongo_client.py\<close>

text \<open>
  The collection is the list of its documents in insertion order. \<open>update_one\<close> changes the
  first document that matches the filter, \<open>update_many\<close> all of them; both report
  \<open>modified_count\<close>, the number of documents the update really changed. \<open>insert_one\<close>
  enforces the unique index that \<open>_create_indexes\<close> puts on \<open>telegram_id\<close> (the index is
  not partial: it ranges over active and inactive documents alike). The other three indexes
  are not unique and do not change what the operations return. The \<open>_id\<close> that the store
  adds to a document is left out.

  The store keeps a datetime as a BSON date, a whole number of milliseconds: the driver cuts
  every datetime it sends, in a document, an update or a filter, down to the millisecond
  (\<open>microsecond // 1000\<close>). \<open>bson_datetime\<close> is that cut, on microseconds.
\<close>

record user_doc =
  telegram_id :: int
  email :: string
  prefix :: string
  created_at :: datetime
  expires_at :: datetime
  is_active :: bool
  last_checked :: datetime
  message_count :: int
  total_messages_received :: int
  last_message_date :: "datetime option"
  deactivated_at :: "datetime option"
  deactivation_reason :: "string option"

record MongoDBClient =
  connected :: bool
  collection :: "user_doc list"

definition bson_datetime :: "datetime \<Rightarrow> datetime" where
  "bson_datetime t = (t div 1000) * 1000"

text \<open>A document as the store keeps it.\<close>

definition stored_doc :: "user_doc \<Rightarrow> user_doc" where
  "stored_doc d =
     d\<lparr>created_at := bson_datetime (created_at d),
       expires_at := bson_datetime (expires_at d),
       last_checked := bson_datetime (last_checked d),
       last_message_date := map_option bson_datetime (last_message_date d),
       deactivated_at := map_option bson_datetime (deactivated_at d)\<rparr>"

fun update_one :: "('a \<Rightarrow> bool) \<Rightarrow> ('a \<Rightarrow> 'a) \<Rightarrow> 'a list \<Rightarrow> nat \<times> 'a list" where
  "update_one q u [] = (0, [])"
| "update_one q u (d # ds) =
     (if q d then ((if u d = d then 0 else 1), u d # ds)
      else (fst (update_one q u ds), d # snd (update_one q u ds)))"

fun update_many :: "('a \<Rightarrow> bool) \<Rightarrow> ('a \<Rightarrow> 'a) \<Rightarrow> 'a list \<Rightarrow> nat \<times> 'a list" where
  "update_many q u [] = (0, [])"
| "update_many q u (d # ds) =
     (if q d
      then ((if u d = d then 0 else 1) + fst (update_many q u ds), u d # snd (update_many q u ds))
      else (fst (update_many q u ds), d # snd (update_many q u ds)))"

definition find_one :: "('a \<Rightarrow> bool) \<Rightarrow> 'a list \<Rightarrow> 'a option" where
  "find_one q ds = List.find q ds"

definition insert_one :: "user_doc \<Rightarrow> user_doc list \<Rightarrow> py_error + user_doc list" where
  "insert_one doc ds =
     (if telegram_id doc \<in> set (map telegram_id ds) then Inl DuplicateKeyError
      else Inr (ds @ [stored_doc doc]))"

definition not_connected :: py_error where
  "not_connected = ConnectionError ''MongoDB not connected''"

text \<open>\<open>now\<close> is what \<open>datetime.utcnow()\<close> returns inside the call.\<close>

definition deactivate_user ::
  "MongoDBClient \<Rightarrow> int \<Rightarrow> datetime \<Rightarrow> (py_error + bool) \<times> MongoDBClient" where
  "deactivate_user m tid now =
     (if \<not> connected m then (Inl not_connected, m)
      else
        (let result = update_one (\<lambda>d. telegram_id d = tid \<and> is_active d)
                        (\<lambda>d. d\<lparr>is_active := False,
                               deactivated_at := Some (bson_datetime now)\<rparr>)
                        (collection m)
         in (Inr (fst result > 0), m\<lparr>collection := snd result\<rparr>)))"

text \<open>
  \<open>prefix or email.split('@')[0].split('_')[0]\<close>: a missing or empty prefix is replaced by
  the part of the address before its first \<open>@\<close>, cut at its first underscore.
\<close>

definition prefix_or_default :: "string option \<Rightarrow> string \<Rightarrow> string" where
  "prefix_or_default p addr =
     (case p of
        None \<Rightarrow> takeWhile (\<lambda>c. c \<noteq> CHR ''_'') (takeWhile (\<lambda>c. c \<noteq> CHR ''@'') addr)
      | Some s \<Rightarrow>
          (if s = [] then takeWhile (\<lambda>c. c \<noteq> CHR ''_'') (takeWhile (\<lambda>c. c \<noteq> CHR ''@'') addr)
           else s))"

text \<open>
  \<open>create_user\<close> reads the clock twice: \<open>now_d\<close> inside the nested \<open>deactivate_user\<close>,
  \<open>now\<close> for \<open>created_at\<close>. The deactivation is kept when the insert is refused. The
  dictionary returned is the one built in Python, with the clock reading as it was; the
  document in the store has it cut to the millisecond.
\<close>

definition create_user ::
  "MongoDBClient \<Rightarrow> int \<Rightarrow> string \<Rightarrow> string option \<Rightarrow> datetime \<Rightarrow> datetime
     \<Rightarrow> (py_error + user_doc) \<times> MongoDBClient" where
  "create_user m tid addr p now_d now =
     (if \<not> connected m then (Inl not_connected, m)
      else
        (let m1 = snd (deactivate_user m tid now_d);
             created = now;
             expires = created + EMAIL_EXPIRY_TIME;
             doc = \<lparr>telegram_id = tid, email = addr, prefix = prefix_or_default p addr,
                    created_at = created, expires_at = expires, is_active = True,
                    last_checked = created, message_count = 0, total_messages_received = 0,
                    last_message_date = None, deactivated_at = None,
                    deactivation_reason = None\<rparr>
         in (case insert_one doc (collection m1) of
               Inl e \<Rightarrow> (Inl (ValueError ''User already exists''), m1)
             | Inr ds \<Rightarrow> (Inr doc, m1\<lparr>collection := ds\<rparr>))))"

definition get_user :: "MongoDBClient \<Rightarrow> int \<Rightarrow> bool \<Rightarrow> py_error + user_doc option" where
  "get_user m tid active_only =
     (if \<not> connected m then Inl not_connected
      else Inr (find_one (\<lambda>d. telegram_id d = tid \<and> (if active_only then is_active d else True))
                  (collection m)))"

definition get_user_by_email :: "MongoDBClient \<Rightarrow> string \<Rightarrow> bool \<Rightarrow> py_error + user_doc option" where
  "get_user_by_email m addr active_only =
     (if \<not> connected m then Inl not_connected
      else Inr (find_one (\<lambda>d. email d = addr \<and> (if active_only then is_active d else True))
                  (collection m)))"

definition increment_message_count ::
  "MongoDBClient \<Rightarrow> int \<Rightarrow> datetime \<Rightarrow> (py_error + bool) \<times> MongoDBClient" where
  "increment_message_count m tid now =
     (if \<not> connected m then (Inl not_connected, m)
      else
        (let result = update_one (\<lambda>d. telegram_id d = tid \<and> is_active d)
                        (\<lambda>d. d\<lparr>message_count := message_count d + 1,
                               total_messages_received := total_messages_received d + 1,
                               last_message_date := Some (bson_datetime now)\<rparr>)
                        (collection m)
         in (Inr (fst result > 0), m\<lparr>collection := snd result\<rparr>)))"

definition expire :: "datetime \<Rightarrow> user_doc \<Rightarrow> user_doc" where
  "expire now d =
     d\<lparr>is_active := False, deactivated_at := Some (bson_datetime now),
       deactivation_reason := Some ''expired''\<rparr>"

definition delete_expired_users ::
  "MongoDBClient \<Rightarrow> datetime \<Rightarrow> (py_error + int) \<times> MongoDBClient" where
  "delete_expired_users m now =
     (if \<not> connected m then (Inl not_connected, m)
      else
        (let result = update_many (\<lambda>d. is_active d \<and> expires_at d < bson_datetime now)
                        (expire now) (collection m)
         in (Inr (int (fst result)), m\<lparr>collection := snd result\<rparr>)))"

text \<open>The operations of the Registry that the lifecycle property ranges over.\<close>

datatype registry_op =
    Create int string "string option" datetime datetime
  | Deactivate int datetime
  | Sweep datetime

fun apply_op :: "MongoDBClient \<Rightarrow> registry_op \<Rightarrow> MongoDBClient" where
  "apply_op m (Create tid addr p now_d now) = snd (create_user m tid addr p now_d now)"
| "apply_op m (Deactivate tid now) = snd (deactivate_user m tid now)"
| "apply_op m (Sweep now) = snd (delete_expired_users m now)"

fun apply_ops :: "MongoDBClient \<Rightarrow> registry_op list \<Rightarrow> MongoDBClient" where
  "apply_ops m [] = m"
| "apply_ops m (x # xs) = apply_ops (apply_op m x) xs"

definition active_entries :: "MongoDBClient \<Rightarrow> int \<Rightarrow> user_doc list" where
  "active_entries m tid = filter (\<lambda>d. telegram_id d = tid \<and> is_active d) (collection m)"

text \<open>
  Calling \<open>increment_message_count\<close> once per clock reading of the list, collecting what
  each call returns.
\<close>

fun increment_repeatedly ::
  "MongoDBClient \<Rightarrow> int \<Rightarrow> datetime list \<Rightarrow> (py_error + bool) list \<times> MongoDBClient" where
  "increment_repeatedly m tid [] = ([], m)"
| "increment_repeatedly m tid (now # nows) =
     (fst (increment_message_count m tid now)
        # fst (increment_repeatedly (snd (increment_message_count m tid now)) tid nows),
      snd (increment_repeatedly (snd (increment_message_count m tid now)) tid nows))"

definition empty_registry :: MongoDBClient where
  "empty_registry = \<lparr>connected = True, collection = []\<rparr>"

section \<open>Strings of the Python library\<close>

text \<open>
  \<open>str.isalnum\<close>, \<open>str.lower\<close> and \<open>str.isspace\<close> on the code points below 256, as the
  Unicode tables of Python give them: the letters of Latin-1 and its superscript digits and
  fractions are alphanumeric, the capital letters \<open>0xC0\<close> to \<open>0xDE\<close> (without the
  multiplication sign \<open>0xD7\<close>) have a lower-case form 32 places up, and the white space is
  \<open>0x09\<close> to \<open>0x0D\<close>, \<open>0x1C\<close> to \<open>0x20\<close>, \<open>0x85\<close> and \<open>0xA0\<close>.
\<close>

definition py_isalnum :: "char \<Rightarrow> bool" where
  "py_isalnum c =
     (let n = (of_char c :: nat)
      in (48 \<le> n \<and> n \<le> 57) \<or> (65 \<le> n \<and> n \<le> 90) \<or> (97 \<le> n \<and> n \<le> 122)
         \<or> n = 170 \<or> n = 178 \<or> n = 179 \<or> n = 181 \<or> n = 185 \<or> n = 186
         \<or> (188 \<le> n \<and> n \<le> 190) \<or> (192 \<le> n \<and> n \<le> 214)
         \<or> (216 \<le> n \<and> n \<le> 246) \<or> 248 \<le> n)"

definition py_lower_char :: "char \<Rightarrow> char" where
  "py_lower_char c =
     (let n = (of_char c :: nat)
      in if (65 \<le> n \<and> n \<le> 90) \<or> (192 \<le> n \<and> n \<le> 214) \<or> (216 \<le> n \<and> n \<le> 222)
         then char_of (n + 32) else c)"

definition py_lower :: "string \<Rightarrow> string" where
  "py_lower s = map py_lower_char s"

definition py_isspace :: "char \<Rightarrow> bool" where
  "py_isspace c =
     (let n = (of_char c :: nat)
      in (9 \<le> n \<and> n \<le> 13) \<or> (28 \<le> n \<and> n \<le> 32) \<or> n = 133 \<or> n = 160)"

definition py_strip :: "string \<Rightarrow> string" where
  "py_strip s = rev (dropWhile py_isspace (rev (dropWhile py_isspace s)))"

definition startswith :: "string \<Rightarrow> string \<Rightarrow> bool" where
  "startswith s p = (take (length p) s = p)"

text \<open>\<open>sub in s\<close> for strings.\<close>

fun contains :: "string \<Rightarrow> string \<Rightarrow> bool" where
  "contains [] sub = (sub = [])"
| "contains (c # cs) sub = (startswith (c # cs) sub \<or> contains cs sub)"

text \<open>\<open>sep.join(xs)\<close> and \<open>s.split('\n')\<close>.\<close>

fun join :: "string \<Rightarrow> string list \<Rightarrow> string" where
  "join sep [] = []"
| "join sep [x] = x"
| "join sep (x # y # ys) = x @ sep @ join sep (y # ys)"

fun split_lines :: "string \<Rightarrow> string list" where
  "split_lines [] = [[]]"
| "split_lines (c # cs) =
     (if c = CHR 0x0A then [] # split_lines cs
      else (c # hd (split_lines cs)) # tl (split_lines cs))"

text \<open>
  The slices \<open>xs[i:]\<close> and \<open>xs[:i]\<close> for an integer \<open>i\<close>: a negative index counts from
  the end, and both are clamped to the list.
\<close>

definition slice_from :: "int \<Rightarrow> 'a list \<Rightarrow> 'a list" where
  "slice_from i xs =
     (let n = int (length xs)
      in drop (nat (if i < 0 then max 0 (n + i) else min i n)) xs)"

definition slice_to :: "int \<Rightarrow> 'a list \<Rightarrow> 'a list" where
  "slice_to i xs =
     (let n = int (length xs)
      in take (nat (if i < 0 then max 0 (n + i) else min i n)) xs)"

section \<open>email\_services/email\_generator.py\<close>

text \<open>
  The random source is the sequence of numbers that the generator draws: \<open>random.choice\<close>
  takes the next one and returns the character at that index (modulo the length of the
  alphabet); \<open>random.choices(chars, k)\<close> does so \<open>k\<close> times.
\<close>

type_synonym rng = "nat \<Rightarrow> nat"

definition random_choice :: "rng \<Rightarrow> string \<Rightarrow> char \<times> rng" where
  "random_choice g chars = (chars ! (g 0 mod length chars), \<lambda>i. g (Suc i))"

fun random_choices :: "rng \<Rightarrow> string \<Rightarrow> nat \<Rightarrow> string \<times> rng" where
  "random_choices g chars 0 = ([], g)"
| "random_choices g chars (Suc k) =
     (fst (random_choice g chars) # fst (random_choices (snd (random_choice g chars)) chars k),
      snd (random_choices (snd (random_choice g chars)) chars k))"

definition ascii_letters_digits :: string where
  "ascii_letters_digits =
     ''abcdefghijklmnopqrstuvwxyzABCDEFGHIJKLMNOPQRSTUVWXYZ0123456789''"

definition generate_random_string :: "rng \<Rightarrow> nat \<Rightarrow> bool \<Rightarrow> string \<times> rng" where
  "generate_random_string g len use_lowercase_only =
     random_choices g (if use_lowercase_only then EMAIL_ALLOWED_CHARS else ascii_letters_digits)
       len"

text \<open>The padding loop \<open>while len(clean_prefix) < EMAIL_PREFIX_LENGTH\<close>.\<close>

function pad_prefix :: "rng \<Rightarrow> string \<Rightarrow> string \<times> rng" where
  "pad_prefix g clean_prefix =
     (if length clean_prefix < EMAIL_PREFIX_LENGTH
      then pad_prefix (snd (random_choice g EMAIL_ALLOWED_CHARS))
             (clean_prefix @ [fst (random_choice g EMAIL_ALLOWED_CHARS)])
      else (clean_prefix, g))"
  by pat_completeness auto
termination
  by (relation "measure (\<lambda>(g, s). EMAIL_PREFIX_LENGTH - length s)") auto

definition generate_user_prefix :: "rng \<Rightarrow> string option \<Rightarrow> string \<times> rng" where
  "generate_user_prefix g custom_prefix =
     (case custom_prefix of
        None \<Rightarrow> generate_random_string g EMAIL_PREFIX_LENGTH True
      | Some cp \<Rightarrow>
          (if cp = [] then generate_random_string g EMAIL_PREFIX_LENGTH True
           else
             (let clean_prefix = filter py_isalnum (py_lower cp)
              in if length clean_prefix > EMAIL_PREFIX_LENGTH
                 then (take EMAIL_PREFIX_LENGTH clean_prefix, g)
                 else if length clean_prefix = 0
                 then generate_random_string g EMAIL_PREFIX_LENGTH True
                 else pad_prefix g clean_prefix)))"

text \<open>
  The attempts of \<open>generate_unique_email\<close>: each draws a suffix and asks the Registry for
  the candidate among all entries; an exception of the lookup is logged and the loop goes on.
\<close>

fun unique_email_attempts ::
  "MongoDBClient \<Rightarrow> rng \<Rightarrow> string \<Rightarrow> nat \<Rightarrow> (py_error + string) \<times> rng" where
  "unique_email_attempts m g pre 0 =
     (Inl (ValueError ''Failed to generate unique email after 10 attempts''), g)"
| "unique_email_attempts m g pre (Suc n) =
     (let random_suffix = fst (generate_random_string g EMAIL_RANDOM_LENGTH True);
          g' = snd (generate_random_string g EMAIL_RANDOM_LENGTH True);
          candidate = pre @ ''_'' @ random_suffix @ ''@'' @ EMAIL_DOMAIN
      in (case get_user_by_email m candidate False of
            Inl e \<Rightarrow> unique_email_attempts m g' pre n
          | Inr (Some existing_user) \<Rightarrow> unique_email_attempts m g' pre n
          | Inr None \<Rightarrow> (Inr candidate, g')))"

definition generate_unique_email ::
  "MongoDBClient \<Rightarrow> rng \<Rightarrow> int \<Rightarrow> string option \<Rightarrow> (py_error + string) \<times> rng" where
  "generate_unique_email m g tid custom_prefix =
     unique_email_attempts m (snd (generate_user_prefix g custom_prefix))
       (fst (generate_user_prefix g custom_prefix)) EMAIL_MAX_GENERATION_ATTEMPTS"

text \<open>
  The shape that the specification gives to an address,
  \<open>^[a-z0-9]+_[a-z0-9]{R}@domain$\<close> with \<open>R = EMAIL_RANDOM_LENGTH\<close>. The class
  \<open>[a-z0-9]\<close> holds neither the underscore nor \<open>@\<close>, so the prefix is the longest
  run of the class at the start.
\<close>

definition is_lower_alnum :: "char \<Rightarrow> bool" where
  "is_lower_alnum c =
     (let n = (of_char c :: nat) in (48 \<le> n \<and> n \<le> 57) \<or> (97 \<le> n \<and> n \<le> 122))"

definition matches_address_pattern :: "string \<Rightarrow> bool" where
  "matches_address_pattern s =
     (let pre = takeWhile is_lower_alnum s;
          rest = dropWhile is_lower_alnum s
      in pre \<noteq> [] \<and> rest \<noteq> [] \<and> hd rest = CHR ''_''
         \<and> length (take EMAIL_RANDOM_LENGTH (tl rest)) = EMAIL_RANDOM_LENGTH
         \<and> list_all is_lower_alnum (take EMAIL_RANDOM_LENGTH (tl rest))
         \<and> drop EMAIL_RANDOM_LENGTH (tl rest) = ''@'' @ EMAIL_DOMAIN)"

section \<open>email/imap\_client.py: the message list\<close>

text \<open>
  \<open>fetch_message_list\<close> over what its two calls return: \<open>search\<close> is the outcome of
  \<open>search_emails\<close> (the UIDs in the order of the server, or an exception), \<open>fetch\<close> the
  outcome of \<open>fetch_message\<close> for a UID (a message, \<open>None\<close>, or an exception).
\<close>

fun fetch_each :: "(string \<Rightarrow> py_error + 'm option) \<Rightarrow> string list \<Rightarrow> 'm list" where
  "fetch_each fetch [] = []"
| "fetch_each fetch (uid # uids) =
     (case fetch uid of
        Inl e \<Rightarrow> fetch_each fetch uids
      | Inr None \<Rightarrow> fetch_each fetch uids
      | Inr (Some message_data) \<Rightarrow> message_data # fetch_each fetch uids)"

definition fetch_message_list ::
  "(py_error + string list) \<Rightarrow> (string \<Rightarrow> py_error + 'm option) \<Rightarrow> int \<Rightarrow> 'm list" where
  "fetch_message_list search fetch limit =
     (case search of
        Inl e \<Rightarrow> []
      | Inr uids \<Rightarrow>
          (if uids = [] then []
           else fetch_each fetch
                  (rev (if int (length uids) > limit then slice_from (- limit) uids else uids))))"

section \<open>email\_services/email\_parser.py: the text preview\<close>

text \<open>
  \<open>re.sub(r'\s+', ' ', s)\<close>: every maximal run of white space becomes one space.
\<close>

function collapse_whitespace :: "string \<Rightarrow> string" where
  "collapse_whitespace [] = []"
| "collapse_whitespace (c # cs) =
     (if py_isspace c then CHR '' '' # collapse_whitespace (dropWhile py_isspace cs)
      else c # collapse_whitespace cs)"
  by pat_completeness auto
termination
  by (relation "measure length") (auto simp: less_Suc_eq_le length_dropWhile_le)

text \<open>
  The four \<open>skip_patterns\<close>, matched at the start of the line without regard to case. On the
  code points below 256 a letter of the pattern matches its two cases and nothing else.
\<close>

definition istartswith :: "string \<Rightarrow> string \<Rightarrow> bool" where
  "istartswith s p = (py_lower (take (length p) s) = py_lower p)"

text \<open>\<open>.* wrote:\<close>: the text of \<open>p\<close> somewhere in the rest of the first line.\<close>

fun icontains_in_line :: "string \<Rightarrow> string \<Rightarrow> bool" where
  "icontains_in_line [] p = (p = [])"
| "icontains_in_line (c # cs) p =
     (istartswith (c # cs) p \<or> (c \<noteq> CHR 0x0A \<and> icontains_in_line cs p))"

definition matches_skip_pattern :: "string \<Rightarrow> bool" where
  "matches_skip_pattern line =
     ((startswith line ''--'' \<and> list_all py_isspace (drop 2 line))
      \<or> startswith line ''>''
      \<or> (istartswith line ''On '' \<and> icontains_in_line (drop 3 line) '' wrote:'')
      \<or> istartswith line ''Sent from my'')"

fun preview_lines :: "int \<Rightarrow> string list \<Rightarrow> string list \<Rightarrow> string list" where
  "preview_lines max_length [] clean_lines = clean_lines"
| "preview_lines max_length (l # ls) clean_lines =
     (let line = py_strip l
      in if line = [] then preview_lines max_length ls clean_lines
         else if matches_skip_pattern line then preview_lines max_length ls clean_lines
         else if int (length (join [CHR 0x0A] (clean_lines @ [line]))) > max_length
         then clean_lines @ [line]
         else preview_lines max_length ls (clean_lines @ [line]))"

definition create_text_preview :: "string \<Rightarrow> int \<Rightarrow> string" where
  "create_text_preview text max_length =
     (if text = [] then ''No content''
      else
        (let lines = split_lines (collapse_whitespace (py_strip text));
             preview_text = join [CHR 0x0A] (preview_lines max_length lines [])
         in if int (length preview_text) > max_length
            then slice_to (max_length - 3) preview_text @ ''...''
            else preview_text))"

section \<open>email\_services/email\_parser.py: the HTML cleaner\<close>

text \<open>
  \<open>re.sub(pattern, '', s)\<close> for a pattern given by the length of its match at the start of
  a string (\<open>None\<close> when it does not match there): the leftmost matches are cut out, the
  search going on behind each.
\<close>

fun remove_matches :: "(string \<Rightarrow> nat option) \<Rightarrow> nat \<Rightarrow> string \<Rightarrow> string" where
  "remove_matches pat k [] = []"
| "remove_matches pat (Suc k) (c # cs) = remove_matches pat k cs"
| "remove_matches pat 0 (c # cs) =
     (case pat (c # cs) of
        None \<Rightarrow> c # remove_matches pat 0 cs
      | Some 0 \<Rightarrow> c # remove_matches pat 0 cs
      | Some (Suc n) \<Rightarrow> remove_matches pat n cs)"

text \<open>The position behind the first occurrence of \<open>p\<close> in \<open>s\<close>, letters in either case.\<close>

fun ifind_end :: "string \<Rightarrow> string \<Rightarrow> nat option" where
  "ifind_end [] p = (if p = [] then Some 0 else None)"
| "ifind_end (c # cs) p =
     (if istartswith (c # cs) p then Some (length p)
      else map_option Suc (ifind_end cs p))"

text \<open>\<open><tag[^>]*>.*?</tag>\<close> with \<open>IGNORECASE\<close> and \<open>DOTALL\<close>.\<close>

definition block_pattern :: "string \<Rightarrow> string \<Rightarrow> nat option" where
  "block_pattern tag s =
     (if istartswith s (''<'' @ tag) then
        (let rest = drop (Suc (length tag)) s;
             attrs = takeWhile (\<lambda>c. c \<noteq> CHR ''>'') rest;
             behind = dropWhile (\<lambda>c. c \<noteq> CHR ''>'') rest
         in if behind = [] then None
            else map_option (\<lambda>n. Suc (length tag) + length attrs + 1 + n)
                   (ifind_end (tl behind) (''</'' @ tag @ ''>'')))
      else None)"

text \<open>\<open><tag[^>]*/>\<close> with \<open>IGNORECASE\<close>.\<close>

definition self_closing_pattern :: "string \<Rightarrow> string \<Rightarrow> nat option" where
  "self_closing_pattern tag s =
     (if istartswith s (''<'' @ tag) then
        (let rest = drop (Suc (length tag)) s;
             attrs = takeWhile (\<lambda>c. c \<noteq> CHR ''>'') rest;
             behind = dropWhile (\<lambda>c. c \<noteq> CHR ''>'') rest
         in if behind \<noteq> [] \<and> attrs \<noteq> [] \<and> last attrs = CHR ''/''
            then Some (Suc (length tag) + length attrs + 1) else None)
      else None)"

text \<open>
  \<open>\s*=\s*["'][^"']*["']\<close>, the tail of the two attribute patterns.
\<close>

definition is_quote :: "char \<Rightarrow> bool" where
  "is_quote c = (c = CHR 0x22 \<or> c = CHR 0x27)"

definition attribute_value_pattern :: "string \<Rightarrow> nat option" where
  "attribute_value_pattern s =
     (let ws1 = takeWhile py_isspace s;
          r1 = dropWhile py_isspace s
      in if r1 \<noteq> [] \<and> hd r1 = CHR ''='' then
           (let ws2 = takeWhile py_isspace (tl r1);
                r2 = dropWhile py_isspace (tl r1)
            in if r2 \<noteq> [] \<and> is_quote (hd r2) then
                 (let val = takeWhile (\<lambda>c. \<not> is_quote c) (tl r2);
                      r3 = dropWhile (\<lambda>c. \<not> is_quote c) (tl r2)
                  in if r3 \<noteq> [] then Some (length ws1 + 1 + length ws2 + 1 + length val + 1)
                     else None)
               else None)
         else None)"

text \<open>\<open>\w\<close>: the alphanumeric code points and the underscore.\<close>

definition is_word_char :: "char \<Rightarrow> bool" where
  "is_word_char c = (py_isalnum c \<or> c = CHR ''_'')"

text \<open>\<open>\s+on\w+\s*=\s*["'][^"']*["']\<close> with \<open>IGNORECASE\<close>.\<close>

definition event_handler_pattern :: "string \<Rightarrow> nat option" where
  "event_handler_pattern s =
     (let ws = takeWhile py_isspace s;
          r = dropWhile py_isspace s
      in if ws \<noteq> [] \<and> istartswith r ''on'' then
           (let name = takeWhile is_word_char (drop 2 r)
            in if name \<noteq> [] then
                 map_option (\<lambda>n. length ws + 2 + length name + n)
                   (attribute_value_pattern (dropWhile is_word_char (drop 2 r)))
               else None)
         else None)"

text \<open>\<open>\s+style\s*=\s*["'][^"']*["']\<close> with \<open>IGNORECASE\<close>.\<close>

definition style_attribute_pattern :: "string \<Rightarrow> nat option" where
  "style_attribute_pattern s =
     (let ws = takeWhile py_isspace s;
          r = dropWhile py_isspace s
      in if ws \<noteq> [] \<and> istartswith r ''style'' then
           map_option (\<lambda>n. length ws + 5 + n) (attribute_value_pattern (drop 5 r))
         else None)"

text \<open>
  \<open><(?!(?:b|i|u|strong|em|a|br|p)(?:\s|>))/?[^>]*>\<close> with \<open>IGNORECASE\<close>: the
  look-ahead stands directly behind \<open><\<close>, before the optional slash.
\<close>

definition telegram_tags :: "string list" where
  "telegram_tags = [''b'', ''i'', ''u'', ''strong'', ''em'', ''a'', ''br'', ''p'']"

definition opens_allowed_tag :: "string \<Rightarrow> bool" where
  "opens_allowed_tag s =
     list_ex (\<lambda>name. istartswith s name \<and> length name < length s
                \<and> (py_isspace (s ! length name) \<or> s ! length name = CHR ''>''))
       telegram_tags"

definition other_tag_pattern :: "string \<Rightarrow> nat option" where
  "other_tag_pattern s =
     (if s \<noteq> [] \<and> hd s = CHR ''<'' \<and> \<not> opens_allowed_tag (tl s)
         \<and> dropWhile (\<lambda>c. c \<noteq> CHR ''>'') (tl s) \<noteq> []
      then Some (1 + length (takeWhile (\<lambda>c. c \<noteq> CHR ''>'') (tl s)) + 1)
      else None)"

definition dangerous_tags :: "string list" where
  "dangerous_tags = [''script'', ''style'', ''iframe'', ''object'', ''embed'', ''form'', ''input'']"

fun remove_dangerous_tags :: "string list \<Rightarrow> string \<Rightarrow> string" where
  "remove_dangerous_tags [] content = content"
| "remove_dangerous_tags (tag # tags) content =
     remove_dangerous_tags tags
       (remove_matches (self_closing_pattern tag) 0
          (remove_matches (block_pattern tag) 0 content))"

text \<open>
  \<open>_clean_html_content\<close>: the substitutions in the order of the source. None of them
  raises on a \<open>str\<close>, so the handler of the function (which would return the escaped
  input) is never entered and has no branch here.
\<close>

definition clean_html_content :: "string \<Rightarrow> string" where
  "clean_html_content html_content =
     (if html_content = [] then []
      else
        py_strip
          (collapse_whitespace
             (remove_matches other_tag_pattern 0
                (remove_matches style_attribute_pattern 0
                   (remove_matches event_handler_pattern 0
                      (remove_dangerous_tags dangerous_tags (py_strip html_content)))))))"

section \<open>email/imap\_client.py: the message parser\<close>

text \<open>
  A message of the \<open>email\<close> package is seen through the methods the parser calls on it:
  \<open>header\<close> is \<open>Message.get(name)\<close>, and each of the other fields is what the method of
  that name returns for the part, or the exception it raises. A message is multipart when its
  payload is a list of messages, and \<open>walk()\<close> goes through a message and all its parts,
  the message itself first.
\<close>

record part =
  header :: "string \<Rightarrow> string option"
  content_type :: string
  filename :: "py_error + string option"
  payload :: "py_error + string option"
  content_charset :: "py_error + string option"
  as_string :: "py_error + string"

datatype message = Single part | Multipart part "message list"

fun root :: "message \<Rightarrow> part" where
  "root (Single p) = p"
| "root (Multipart p ms) = p"

fun is_multipart :: "message \<Rightarrow> bool" where
  "is_multipart (Single p) = False"
| "is_multipart (Multipart p ms) = True"

fun walk :: "message \<Rightarrow> part list" where
  "walk (Single p) = [p]"
| "walk (Multipart p ms) = p # concat (map walk ms)"

definition get :: "part \<Rightarrow> string \<Rightarrow> string \<Rightarrow> string" where
  "get p name dflt = (case header p name of None \<Rightarrow> dflt | Some v \<Rightarrow> v)"

text \<open>
  The functions of the standard library that the parser calls, each with the exception it
  may raise: \<open>email.header.decode_header\<close> (a list of chunks, \<open>bytes\<close> or \<open>str\<close>, each
  with its character set), \<open>bytes.decode(encoding, errors='ignore')\<close>,
  \<open>email.utils.parsedate_tz\<close>, \<open>mktime_tz\<close>, \<open>datetime.fromtimestamp\<close>, and
  \<open>re.search\<close> with the address pattern, which gives the matched text.
\<close>

datatype chunk = Bytes string | Str string

record library =
  decode_header :: "string \<Rightarrow> py_error + (chunk \<times> string option) list"
  bytes_decode :: "string \<Rightarrow> string \<Rightarrow> py_error + string"
  parsedate_tz :: "string \<Rightarrow> py_error + int list option"
  mktime_tz :: "int list \<Rightarrow> py_error + int"
  fromtimestamp :: "int \<Rightarrow> py_error + datetime"
  search_email_pattern :: "string \<Rightarrow> py_error + string option"

record attachment =
  att_filename :: string
  att_content_type :: string
  att_size :: nat
  att_data :: string
  is_image :: bool
  is_pdf :: bool
  is_document :: bool

text \<open>
  The dictionary that the parser returns. A key that the degraded dictionary does not have
  is \<open>None\<close> there; \<open>parse_error\<close> is true when the key is present.
\<close>

record message_data =
  uid :: string
  subject :: string
  sender :: string
  sender_email :: "string option"
  to_header :: "string option"
  date :: "datetime option"
  date_str :: "string option"
  message_id :: "string option"
  body_text :: string
  body_html :: "string option"
  attachments :: "attachment list"
  has_attachments :: bool
  attachment_count :: nat
  message_size :: "nat option"
  parse_error :: bool

fun decode_chunks ::
  "library \<Rightarrow> (chunk \<times> string option) list \<Rightarrow> string \<Rightarrow> py_error + string" where
  "decode_chunks lib [] decoded_header = Inr decoded_header"
| "decode_chunks lib ((Str s, encoding) # rest) decoded_header =
     decode_chunks lib rest (decoded_header @ s)"
| "decode_chunks lib ((Bytes b, encoding) # rest) decoded_header =
     (case bytes_decode lib b
             (case encoding of None \<Rightarrow> ''utf-8''
              | Some enc \<Rightarrow> if enc = [] then ''utf-8'' else enc) of
        Inl e \<Rightarrow> Inl e
      | Inr s \<Rightarrow> decode_chunks lib rest (decoded_header @ s))"

definition decode_header_value :: "library \<Rightarrow> string \<Rightarrow> string" where
  "decode_header_value lib hdr =
     (if hdr = [] then []
      else
        (case decode_header lib hdr of
           Inl e \<Rightarrow> hdr
         | Inr decoded_parts \<Rightarrow>
             (case decode_chunks lib decoded_parts [] of
                Inl e \<Rightarrow> hdr
              | Inr decoded \<Rightarrow> py_strip decoded)))"

definition parse_date :: "library \<Rightarrow> datetime \<Rightarrow> string \<Rightarrow> datetime" where
  "parse_date lib now ds =
     (if ds = [] then now
      else
        (case parsedate_tz lib ds of
           Inl e \<Rightarrow> now
         | Inr None \<Rightarrow> now
         | Inr (Some timestamp) \<Rightarrow>
             (if timestamp = [] then now
              else
                (case mktime_tz lib timestamp of
                   Inl e \<Rightarrow> now
                 | Inr t \<Rightarrow> (case fromtimestamp lib t of Inl e \<Rightarrow> now | Inr d \<Rightarrow> d)))))"

definition extract_email_from_header :: "library \<Rightarrow> string \<Rightarrow> string" where
  "extract_email_from_header lib hdr =
     (case search_email_pattern lib hdr of
        Inl e \<Rightarrow> hdr
      | Inr None \<Rightarrow> hdr
      | Inr (Some matched) \<Rightarrow> py_lower matched)"

definition extract_attachment :: "library \<Rightarrow> part \<Rightarrow> attachment option" where
  "extract_attachment lib p =
     (case filename p of
        Inl e \<Rightarrow> None
      | Inr None \<Rightarrow> None
      | Inr (Some fname) \<Rightarrow>
          (if fname = [] then None
           else
             (case payload p of
                Inl e \<Rightarrow> None
              | Inr None \<Rightarrow> None
              | Inr (Some data) \<Rightarrow>
                  (if data = [] then None
                   else
                     Some \<lparr>att_filename = decode_header_value lib fname,
                           att_content_type = content_type p,
                           att_size = length data,
                           att_data = data,
                           is_image = startswith (content_type p) ''image/'',
                           is_pdf = (content_type p = ''application/pdf''),
                           is_document =
                             ((startswith (content_type p) ''application/''
                               \<or> startswith (content_type p) ''text/'')
                              \<and> \<not> startswith (content_type p) ''image/'')\<rparr>))))"

text \<open>
  The text of a part: \<open>get_payload(decode=True)\<close>, and when it is not empty its decoding
  with \<open>get_content_charset() or 'utf-8'\<close>. \<open>Inr None\<close> leaves the body as it was.
\<close>

definition decoded_text :: "library \<Rightarrow> part \<Rightarrow> py_error + string option" where
  "decoded_text lib p =
     (case payload p of
        Inl e \<Rightarrow> Inl e
      | Inr None \<Rightarrow> Inr None
      | Inr (Some data) \<Rightarrow>
          (if data = [] then Inr None
           else
             (case content_charset p of
                Inl e \<Rightarrow> Inl e
              | Inr cs \<Rightarrow>
                  (case bytes_decode lib data
                          (case cs of None \<Rightarrow> ''utf-8''
                           | Some c \<Rightarrow> if c = [] then ''utf-8'' else c) of
                     Inl e \<Rightarrow> Inl e
                   | Inr s \<Rightarrow> Inr (Some s)))))"

text \<open>
  The loop over \<open>walk()\<close>, on the three local variables. It stops at the first exception
  and returns it with the variables as they are then.
\<close>

fun extract_parts ::
  "library \<Rightarrow> part list \<Rightarrow> string \<times> string \<times> attachment list
     \<Rightarrow> py_error option \<times> string \<times> string \<times> attachment list" where
  "extract_parts lib [] vars = (None, vars)"
| "extract_parts lib (p # ps) (text, html, atts) =
     (if contains (get p ''Content-Disposition'' []) ''attachment'' then
        (case extract_attachment lib p of
           None \<Rightarrow> extract_parts lib ps (text, html, atts)
         | Some attachment_data \<Rightarrow> extract_parts lib ps (text, html, atts @ [attachment_data]))
      else if content_type p = ''text/plain'' \<and> text = [] then
        (case decoded_text lib p of
           Inl e \<Rightarrow> (Some e, text, html, atts)
         | Inr None \<Rightarrow> extract_parts lib ps (text, html, atts)
         | Inr (Some s) \<Rightarrow> extract_parts lib ps (s, html, atts))
      else if content_type p = ''text/html'' \<and> html = [] then
        (case decoded_text lib p of
           Inl e \<Rightarrow> (Some e, text, html, atts)
         | Inr None \<Rightarrow> extract_parts lib ps (text, html, atts)
         | Inr (Some s) \<Rightarrow> extract_parts lib ps (text, s, atts))
      else extract_parts lib ps (text, html, atts))"

definition extract_single ::
  "library \<Rightarrow> part \<Rightarrow> py_error option \<times> string \<times> string \<times> attachment list" where
  "extract_single lib p =
     (if content_type p = ''text/plain'' then
        (case decoded_text lib p of
           Inl e \<Rightarrow> (Some e, [], [], [])
         | Inr None \<Rightarrow> (None, [], [], [])
         | Inr (Some s) \<Rightarrow> (None, s, [], []))
      else if content_type p = ''text/html'' then
        (case decoded_text lib p of
           Inl e \<Rightarrow> (Some e, [], [], [])
         | Inr None \<Rightarrow> (None, [], [], [])
         | Inr (Some s) \<Rightarrow> (None, [], s, []))
      else (None, [], [], []))"

definition extract_body_and_attachments ::
  "library \<Rightarrow> message \<Rightarrow> string \<times> string \<times> attachment list" where
  "extract_body_and_attachments lib email_message =
     (case (if is_multipart email_message
            then extract_parts lib (walk email_message) ([], [], [])
            else extract_single lib (root email_message)) of
        (None, vars) \<Rightarrow> vars
      | (Some e, text, html, atts) \<Rightarrow>
          (''Error extracting email content: '' @ str_of_error e, html, atts))"

text \<open>The body of the \<open>try\<close> of \<open>_parse_email_message\<close>, and the function itself.\<close>

definition parse_email_message_try ::
  "library \<Rightarrow> datetime \<Rightarrow> message \<Rightarrow> string \<Rightarrow> py_error + message_data" where
  "parse_email_message_try lib now email_message u =
     (let sender_v = decode_header_value lib (get (root email_message) ''From'' []);
          extracted = extract_body_and_attachments lib email_message;
          atts = snd (snd extracted)
      in (case as_string (root email_message) of
            Inl e \<Rightarrow> Inl e
          | Inr text \<Rightarrow>
              Inr \<lparr>uid = u,
                   subject = decode_header_value lib (get (root email_message) ''Subject'' []),
                   sender = sender_v,
                   sender_email = Some (extract_email_from_header lib sender_v),
                   to_header = Some (decode_header_value lib (get (root email_message) ''To'' [])),
                   date = Some (parse_date lib now (get (root email_message) ''Date'' [])),
                   date_str = Some (get (root email_message) ''Date'' []),
                   message_id = Some (get (root email_message) ''Message-ID'' []),
                   body_text = fst extracted,
                   body_html = Some (fst (snd extracted)),
                   attachments = atts,
                   has_attachments = (length atts > 0),
                   attachment_count = length atts,
                   message_size = Some (length text),
                   parse_error = False\<rparr>))"

definition parse_email_message ::
  "library \<Rightarrow> datetime \<Rightarrow> message \<Rightarrow> string \<Rightarrow> py_error + message_data" where
  "parse_email_message lib now email_message u =
     (case parse_email_message_try lib now email_message u of
        Inr data \<Rightarrow> Inr data
      | Inl e \<Rightarrow>
          Inr \<lparr>uid = u, subject = ''Parse Error'', sender = ''Unknown'',
               sender_email = None, to_header = None, date = None, date_str = None,
               message_id = None,
               body_text = ''Error parsing email: '' @ str_of_error e,
               body_html = None, attachments = [], has_attachments = False,
               attachment_count = 0, message_size = None, parse_error = True\<rparr>)"

section \<open>Concrete inputs\<close>

text \<open>
  A Registry with an active entry that expires at 3600 seconds, an active entry that
  expires at 4600 seconds, and an entry that was deleted before it expired.
\<close>

definition registry_of_three :: MongoDBClient where
  "registry_of_three =
     \<lparr>connected = True,
      collection =
        [\<lparr>telegram_id = 1, email = ''aaaaaa_11111111@seveton.site'', prefix = ''aaaaaa'',
          created_at = 0, expires_at = 3600000000, is_active = True, last_checked = 0,
          message_count = 3, total_messages_received = 10, last_message_date = None,
          deactivated_at = None, deactivation_reason = None\<rparr>,
         \<lparr>telegram_id = 2, email = ''bbbbbb_22222222@seveton.site'', prefix = ''bbbbbb'',
          created_at = 1000000000, expires_at = 4600000000, is_active = True,
          last_checked = 1000000000, message_count = 0, total_messages_received = 0,
          last_message_date = None, deactivated_at = None, deactivation_reason = None\<rparr>,
         \<lparr>telegram_id = 3, email = ''cccccc_33333333@seveton.site'', prefix = ''cccccc'',
          created_at = 0, expires_at = 3600000000, is_active = False, last_checked = 0,
          message_count = 0, total_messages_received = 0, last_message_date = None,
          deactivated_at = Some 5000000, deactivation_reason = None\<rparr>]\<rparr>"

text \<open>A library whose functions return without an exception.\<close>

definition plain_library :: library where
  "plain_library =
     \<lparr>decode_header = (\<lambda>h. Inr [(Str h, None)]),
      bytes_decode = (\<lambda>b enc. Inr b),
      parsedate_tz = (\<lambda>ds. Inr None),
      mktime_tz = (\<lambda>t. Inr 0),
      fromtimestamp = (\<lambda>t. Inr t),
      search_email_pattern = (\<lambda>h. Inr None)\<rparr>"

text \<open>
  A single-part message that declares a file name and the disposition \<open>attachment\<close>, the
  same part inside a multipart message, and a message whose rendering as a string fails.
\<close>

definition file_part :: part where
  "file_part =
     \<lparr>header = (\<lambda>name. if name = ''Content-Disposition''
                        then Some ''attachment; filename=a.txt'' else None),
      content_type = ''application/pdf'',
      filename = Inr (Some ''a.txt''),
      payload = Inr (Some ''%PDF''),
      content_charset = Inr None,
      as_string = Inr ''Content-Disposition: attachment; filename=a.txt''\<rparr>"

definition container_part :: part where
  "container_part =
     \<lparr>header = (\<lambda>name. None),
      content_type = ''multipart/mixed'',
      filename = Inr None,
      payload = Inr None,
      content_charset = Inr None,
      as_string = Inr ''Content-Type: multipart/mixed''\<rparr>"

definition broken_part :: part where
  "broken_part =
     \<lparr>header = (\<lambda>name. None),
      content_type = ''text/plain'',
      filename = Inr None,
      payload = Inr (Some ''hello''),
      content_charset = Inr None,
      as_string = Inl (PyException ''string payload expected'')\<rparr>"

text \<open>
  A library whose \<open>bytes.decode\<close> knows \<open>utf-8\<close> only and raises \<open>LookupError\<close> for any
  other character set, and a text part that declares a character set it does not know.
\<close>

definition strict_library :: library where
  "strict_library =
     \<lparr>decode_header = (\<lambda>h. Inr [(Str h, None)]),
      bytes_decode = (\<lambda>b enc. if enc = ''utf-8'' then Inr b
                                else Inl (PyException (''unknown encoding: '' @ enc))),
      parsedate_tz = (\<lambda>ds. Inr None),
      mktime_tz = (\<lambda>t. Inr 0),
      fromtimestamp = (\<lambda>t. Inr t),
      search_email_pattern = (\<lambda>h. Inr None)\<rparr>"

definition odd_charset_part :: part where
  "odd_charset_part =
     \<lparr>header = (\<lambda>name. None),
      content_type = ''text/plain'',
      filename = Inr None,
      payload = Inr (Some ''hello''),
      content_charset = Inr (Some ''x-unknown''),
      as_string = Inr ''hello''\<rparr>"

section \<open>Properties of the Registry\<close>

lemma update_many_snd: "snd (update_many q u ds) = map (\<lambda>d. if q d then u d else d) ds"
  by (induction ds) auto

lemma update_many_fst: "fst (update_many q u ds) = length (filter (\<lambda>d. q d \<and> u d \<noteq> d) ds)"
  by (induction ds) auto

lemma expire_changes: "is_active d \<Longrightarrow> expire now d \<noteq> d"
  by (auto simp: expire_def dest: arg_cong [where f = is_active])

lemma update_one_none: "find_one q ds = None \<Longrightarrow> update_one q u ds = (0, ds)"
  by (induction ds) (auto simp: find_one_def split: if_splits)

lemma update_one_some_fst:
  "find_one q ds = Some d \<Longrightarrow> fst (update_one q u ds) = (if u d = d then 0 else 1)"
  by (induction ds) (auto simp: find_one_def split: if_splits)

lemma update_one_find:
  "find_one q ds = Some d \<Longrightarrow> q (u d) \<Longrightarrow> find_one q (snd (update_one q u ds)) = Some (u d)"
  by (induction ds) (auto simp: find_one_def split: if_splits)

lemma find_one_holds: "find_one q ds = Some d \<Longrightarrow> q d"
  by (induction ds) (auto simp: find_one_def split: if_splits)

lemma update_one_keeps_ids:
  "map telegram_id (snd (update_one q (\<lambda>d. d\<lparr>is_active := False, deactivated_at := Some now\<rparr>) ds))
   = map telegram_id ds"
  by (induction ds) auto

text \<open>
  What \<open>create_user\<close> returns on a connected Registry: the insert is refused exactly when
  some entry of the identity, active or not, is in the store; otherwise the new entry is
  returned, active, with \<open>expires_at\<close> one TTL behind \<open>created_at\<close> and both counters zero.
\<close>

lemma create_user_result:
  assumes "connected m"
  shows "fst (create_user m tid addr p now_d now) =
           (if tid \<in> set (map telegram_id (collection m))
            then Inl (ValueError ''User already exists'')
            else Inr \<lparr>telegram_id = tid, email = addr, prefix = prefix_or_default p addr,
                      created_at = now, expires_at = now + EMAIL_EXPIRY_TIME, is_active = True,
                      last_checked = now, message_count = 0, total_messages_received = 0,
                      last_message_date = None, deactivated_at = None,
                      deactivation_reason = None\<rparr>)"
  using assms
  by (simp add: create_user_def deactivate_user_def insert_one_def Let_def update_one_keeps_ids
           del: set_map)

text \<open>
  C1. Replace-on-create: \<open>create_user\<close> deactivates the active entry of the identity and
  then inserts a new active entry, also when an inactive entry of the identity is still in
  the store. Evaluated on the code: identity 42 gets an address at time 0 and deletes it one
  minute later; the next \<open>create_user\<close> for 42 is refused with \<open>User already exists\<close>,
  and the store keeps the old inactive entry only. Called while the first entry is still
  active, \<open>create_user\<close> deactivates that entry and is refused as well, so that the
  identity is left without an active entry.
\<close>

theorem create_user_refused_after_deactivation:
  "create_user
     (snd (deactivate_user
        (snd (create_user empty_registry 42 ''abcxyz_a1b2c3d4@seveton.site'' (Some ''abcxyz'') 0 0))
        42 60000000))
     42 ''qwerty_z9y8x7w6@seveton.site'' (Some ''qwerty'') 120000000 120000000
   = (Inl (ValueError ''User already exists''),
      \<lparr>connected = True,
       collection =
         [\<lparr>telegram_id = 42, email = ''abcxyz_a1b2c3d4@seveton.site'', prefix = ''abcxyz'',
           created_at = 0, expires_at = 3600000000, is_active = False, last_checked = 0,
           message_count = 0, total_messages_received = 0, last_message_date = None,
           deactivated_at = Some 60000000, deactivation_reason = None\<rparr>]\<rparr>)
   \<and> create_user
       (snd (create_user empty_registry 42 ''abcxyz_a1b2c3d4@seveton.site'' (Some ''abcxyz'') 0 0))
       42 ''qwerty_z9y8x7w6@seveton.site'' (Some ''qwerty'') 120000000 120000000
     = (Inl (ValueError ''User already exists''),
        \<lparr>connected = True,
         collection =
           [\<lparr>telegram_id = 42, email = ''abcxyz_a1b2c3d4@seveton.site'', prefix = ''abcxyz'',
             created_at = 0, expires_at = 3600000000, is_active = False, last_checked = 0,
             message_count = 0, total_messages_received = 0, last_message_date = None,
             deactivated_at = Some 120000000, deactivation_reason = None\<rparr>]\<rparr>)"
  by (simp add: create_user_def deactivate_user_def insert_one_def empty_registry_def
        prefix_or_default_def EMAIL_EXPIRY_TIME_def stored_doc_def bson_datetime_def Let_def)

lemma active_after_deactivate:
  "length (filter (\<lambda>d. telegram_id d = i \<and> is_active d)
     (snd (update_one (\<lambda>d. telegram_id d = tid \<and> is_active d)
             (\<lambda>d. d\<lparr>is_active := False, deactivated_at := Some now\<rparr>) ds)))
   = (if i = tid then length (filter (\<lambda>d. telegram_id d = i \<and> is_active d) ds) - 1
      else length (filter (\<lambda>d. telegram_id d = i \<and> is_active d) ds))"
  by (induction ds) auto

lemma active_after_sweep:
  "length (filter (\<lambda>d. telegram_id d = i \<and> is_active d)
     (snd (update_many (\<lambda>d. is_active d \<and> expires_at d < t) (expire now) ds)))
   \<le> length (filter (\<lambda>d. telegram_id d = i \<and> is_active d) ds)"
  by (induction ds) (auto simp: expire_def)

lemma deactivate_user_active:
  "length (active_entries (snd (deactivate_user m tid now)) i)
   = (if connected m \<and> i = tid then length (active_entries m i) - 1
      else length (active_entries m i))"
  by (simp add: deactivate_user_def active_entries_def active_after_deactivate Let_def)

lemma sweep_active:
  "length (active_entries (snd (delete_expired_users m now)) i) \<le> length (active_entries m i)"
  by (simp add: delete_expired_users_def active_entries_def active_after_sweep Let_def)

lemma create_user_active:
  assumes a: "length (active_entries m i) \<le> 1"
  shows "length (active_entries (snd (create_user m tid addr p now_d now)) i) \<le> 1"
proof (cases "connected m")
  case False
  with a show ?thesis by (simp add: create_user_def)
next
  case True
  define m1 where "m1 = snd (deactivate_user m tid now_d)"
  define doc where "doc = \<lparr>telegram_id = tid, email = addr, prefix = prefix_or_default p addr,
                    created_at = now, expires_at = now + EMAIL_EXPIRY_TIME, is_active = True,
                    last_checked = now, message_count = 0, total_messages_received = 0,
                    last_message_date = None, deactivated_at = None,
                    deactivation_reason = None\<rparr>"
  have m1: "length (active_entries m1 i) = (if i = tid then 0 else length (active_entries m i))"
    using a True unfolding m1_def by (auto simp: deactivate_user_active)
  have res: "snd (create_user m tid addr p now_d now) =
               (case insert_one doc (collection m1) of Inl e \<Rightarrow> m1
                | Inr ds \<Rightarrow> m1\<lparr>collection := ds\<rparr>)"
    using True unfolding m1_def doc_def
    by (simp add: create_user_def Let_def split: sum.splits)
  show ?thesis
  proof (cases "insert_one doc (collection m1)")
    case (Inl e)
    with res m1 a show ?thesis by simp
  next
    case (Inr ds)
    then have ds: "ds = collection m1 @ [stored_doc doc]"
      by (auto simp: insert_one_def split: if_splits)
    have "length (active_entries (m1\<lparr>collection := ds\<rparr>) i) =
            length (active_entries m1 i) + (if i = tid then 1 else 0)"
      unfolding ds by (simp add: active_entries_def doc_def stored_doc_def)
    with res Inr m1 a show ?thesis by simp
  qed
qed

lemma apply_op_active:
  assumes "length (active_entries m i) \<le> 1"
  shows "length (active_entries (apply_op m x) i) \<le> 1"
proof (cases x)
  case (Create tid addr p now_d now)
  show ?thesis unfolding Create apply_op.simps
    by (rule create_user_active [OF assms])
next
  case (Deactivate tid now)
  show ?thesis unfolding Deactivate apply_op.simps deactivate_user_active
    using assms by auto
next
  case (Sweep now)
  show ?thesis unfolding Sweep apply_op.simps
    using sweep_active [of m now i] assms by linarith
qed

text \<open>
  C2. At most one active entry: when a Registry holds at most one active entry of an
  identity, it still does after any finite sequence of \<open>create_user\<close>, \<open>deactivate_user\<close>
  and \<open>delete_expired_users\<close> calls, for any identities, addresses and clock readings.
  The empty Registry is such a state.
\<close>

theorem at_most_one_active:
  "length (active_entries m i) \<le> 1 \<Longrightarrow> length (active_entries (apply_ops m ops) i) \<le> 1"
proof (induction ops arbitrary: m)
  case Nil
  then show ?case by simp
next
  case (Cons x xs)
  show ?case unfolding apply_ops.simps
    by (rule Cons.IH [OF apply_op_active [OF Cons.prems]])
qed

theorem at_most_one_active_witness:
  "length (active_entries empty_registry 42) \<le> 1
   \<and> length (active_entries
        (apply_ops empty_registry
           [Create 42 ''abcxyz_a1b2c3d4@seveton.site'' None 0 0,
            Create 7 ''qqqqqq_a1b2c3d4@seveton.site'' None 5 5,
            Deactivate 7 9,
            Sweep 3600000007,
            Create 42 ''abcxyz_zzzzzzzz@seveton.site'' None 3600000008 3600000008]) 42) \<le> 1"
  using at_most_one_active [of empty_registry 42
           "[Create 42 ''abcxyz_a1b2c3d4@seveton.site'' None 0 0,
            Create 7 ''qqqqqq_a1b2c3d4@seveton.site'' None 5 5,
            Deactivate 7 9,
            Sweep 3600000007,
            Create 42 ''abcxyz_zzzzzzzz@seveton.site'' None 3600000008 3600000008]"]
  by (simp add: empty_registry_def active_entries_def)

lemma bson_datetime_le: "bson_datetime t \<le> t"
  unfolding bson_datetime_def by presburger

text \<open>
  The claim C5 as it is written, for every current time, does not hold: the first entry
  of the Registry is active and expired half a millisecond before the clock reading, which
  the filter compares cut to the millisecond, and the sweep leaves the entry as it is and
  returns 0.
\<close>

theorem delete_expired_users_skips_same_millisecond:
  "is_active (hd (collection registry_of_three))
   \<and> expires_at (hd (collection registry_of_three)) < 3600000500
   \<and> delete_expired_users registry_of_three 3600000500 = (Inr 0, registry_of_three)"
  by (simp add: delete_expired_users_def registry_of_three_def bson_datetime_def)

text \<open>
  C5, amended. The expiry sweep on a connected Registry with the clock at \<open>now\<close>: every
  entry that is active with \<open>expires_at\<close> earlier than \<open>now\<close> cut to whole milliseconds
  becomes inactive, with \<open>deactivated_at\<close> that cut time and
  \<open>deactivation_reason = "expired"\<close>; every other entry is left as it is, among them
  every entry that is not yet due and every entry that is already inactive; and the count
  returned is the number of entries so deactivated. An active entry that expired within
  the millisecond of the clock reading is left to a later sweep.
\<close>

theorem delete_expired_users_sweep:
  assumes "connected m"
  shows "fst (delete_expired_users m now) =
           Inr (int (length (filter (\<lambda>d. is_active d \<and> expires_at d < bson_datetime now)
                               (collection m))))
       \<and> connected (snd (delete_expired_users m now))
       \<and> collection (snd (delete_expired_users m now)) =
           map (\<lambda>d. if is_active d \<and> expires_at d < bson_datetime now
                     then d\<lparr>is_active := False, deactivated_at := Some (bson_datetime now),
                            deactivation_reason := Some ''expired''\<rparr>
                     else d) (collection m)
       \<and> (\<forall>i < length (collection m).
             now \<le> expires_at (collection m ! i) \<or> \<not> is_active (collection m ! i) \<longrightarrow>
             collection (snd (delete_expired_users m now)) ! i = collection m ! i)"
proof -
  have "(\<lambda>d. (is_active d \<and> expires_at d < bson_datetime now) \<and> expire now d \<noteq> d) =
          (\<lambda>d. is_active d \<and> expires_at d < bson_datetime now)"
    using expire_changes by blast
  then have a: "fst (delete_expired_users m now) =
           Inr (int (length (filter (\<lambda>d. is_active d \<and> expires_at d < bson_datetime now)
                               (collection m))))"
    and b: "connected (snd (delete_expired_users m now))"
    and c: "collection (snd (delete_expired_users m now)) =
           map (\<lambda>d. if is_active d \<and> expires_at d < bson_datetime now
                     then d\<lparr>is_active := False, deactivated_at := Some (bson_datetime now),
                            deactivation_reason := Some ''expired''\<rparr>
                     else d) (collection m)"
    using assms
    by (simp_all add: delete_expired_users_def update_many_snd update_many_fst expire_def)
  have d: "\<forall>i < length (collection m).
             now \<le> expires_at (collection m ! i) \<or> \<not> is_active (collection m ! i) \<longrightarrow>
             collection (snd (delete_expired_users m now)) ! i = collection m ! i"
  proof (intro allI impI)
    fix i assume i: "i < length (collection m)"
      and h: "now \<le> expires_at (collection m ! i) \<or> \<not> is_active (collection m ! i)"
    have "\<not> (is_active (collection m ! i) \<and> expires_at (collection m ! i) < bson_datetime now)"
      using h bson_datetime_le [of now] by auto
    then show "collection (snd (delete_expired_users m now)) ! i = collection m ! i"
      unfolding c using i by auto
  qed
  from a b c d show ?thesis by blast
qed

theorem delete_expired_users_sweep_witness:
  "connected registry_of_three
   \<and> fst (delete_expired_users registry_of_three 4000000500) = Inr 1
   \<and> map is_active (collection (snd (delete_expired_users registry_of_three 4000000500)))
       = [False, True, False]
   \<and> map deactivation_reason (collection (snd (delete_expired_users registry_of_three 4000000500)))
       = [Some ''expired'', None, None]
   \<and> map deactivated_at (collection (snd (delete_expired_users registry_of_three 4000000500)))
       = [Some 4000000000, None, Some 5000000]"
proof -
  have c: "connected registry_of_three"
    by (simp add: registry_of_three_def)
  show ?thesis
    using c delete_expired_users_sweep [OF c, of 4000000500]
    by (simp add: registry_of_three_def bson_datetime_def)
qed

lemma increment_active:
  assumes "connected m" "get_user m tid True = Inr (Some d)"
  shows "fst (increment_message_count m tid now) = Inr True"
    and "connected (snd (increment_message_count m tid now))"
    and "get_user (snd (increment_message_count m tid now)) tid True =
           Inr (Some (d\<lparr>message_count := message_count d + 1,
                        total_messages_received := total_messages_received d + 1,
                        last_message_date := Some (bson_datetime now)\<rparr>))"
proof -
  let ?q = "\<lambda>d. telegram_id d = tid \<and> is_active d"
  let ?u = "\<lambda>d. d\<lparr>message_count := message_count d + 1,
                    total_messages_received := total_messages_received d + 1,
                    last_message_date := Some (bson_datetime now)\<rparr>"
  from assms have f: "find_one ?q (collection m) = Some d"
    by (simp add: get_user_def)
  have q: "?q d" using find_one_holds [OF f] .
  have ne: "?u d \<noteq> d"
    by (auto dest: arg_cong [where f = message_count])
  show "fst (increment_message_count m tid now) = Inr True"
    using assms(1) update_one_some_fst [OF f, of ?u] ne
    by (simp add: increment_message_count_def Let_def)
  show "connected (snd (increment_message_count m tid now))"
    using assms(1) by (simp add: increment_message_count_def Let_def)
  have "?q (?u d)" using q by simp
  from update_one_find [of ?q "collection m" d ?u, OF f this]
  show "get_user (snd (increment_message_count m tid now)) tid True = Inr (Some (?u d))"
    using assms(1) by (simp add: increment_message_count_def get_user_def Let_def)
qed

lemma increment_repeatedly_active:
  "connected m \<Longrightarrow> get_user m tid True = Inr (Some d) \<Longrightarrow>
   fst (increment_repeatedly m tid nows) = replicate (length nows) (Inr True) \<and>
   (\<exists>d'. get_user (snd (increment_repeatedly m tid nows)) tid True = Inr (Some d') \<and>
         message_count d' = message_count d + int (length nows) \<and>
         total_messages_received d' = total_messages_received d + int (length nows))"
proof (induction nows arbitrary: m d)
  case Nil
  then show ?case by simp
next
  case (Cons now nows)
  note inc = increment_active [OF Cons.prems, of now]
  from Cons.IH [OF inc(2) inc(3)] inc(1) show ?case
    by auto
qed

lemma increment_inactive:
  "connected m \<Longrightarrow> get_user m tid True = Inr None \<Longrightarrow>
   increment_message_count m tid now = (Inr False, m)"
  by (simp add: increment_message_count_def get_user_def update_one_none)

text \<open>
  C6. Counters: on a connected Registry where the identity has an active entry \<open>d\<close>,
  \<open>k\<close> calls of \<open>increment_message_count\<close> (one per clock reading of \<open>nows\<close>) all
  return true, and the active entry of the identity then has \<open>message_count\<close> and
  \<open>total_messages_received\<close> exactly \<open>k\<close> above those of \<open>d\<close>. Where the identity has no
  active entry, a call returns false, raises nothing and leaves the Registry as it is.
\<close>

theorem increment_message_count_round_trip:
  assumes "connected m"
  shows "(get_user m tid True = Inr (Some d) \<longrightarrow>
            fst (increment_repeatedly m tid nows) = replicate (length nows) (Inr True) \<and>
            (\<exists>d'. get_user (snd (increment_repeatedly m tid nows)) tid True = Inr (Some d') \<and>
                  message_count d' = message_count d + int (length nows) \<and>
                  total_messages_received d' = total_messages_received d + int (length nows)))
       \<and> (get_user m tid True = Inr None \<longrightarrow>
            increment_message_count m tid now = (Inr False, m))"
  using assms increment_repeatedly_active increment_inactive by blast

theorem increment_message_count_round_trip_witness:
  "fst (increment_repeatedly registry_of_three 1 [10, 20, 30]) = [Inr True, Inr True, Inr True]
   \<and> (\<exists>d'. get_user (snd (increment_repeatedly registry_of_three 1 [10, 20, 30])) 1 True
             = Inr (Some d')
           \<and> message_count d' = 6 \<and> total_messages_received d' = 13)
   \<and> increment_message_count registry_of_three 3 10 = (Inr False, registry_of_three)"
proof -
  have c: "connected registry_of_three"
    by (simp add: registry_of_three_def)
  have g1: "get_user registry_of_three 1 True = Inr (Some (hd (collection registry_of_three)))"
    by (simp add: registry_of_three_def get_user_def find_one_def)
  have g3: "get_user registry_of_three 3 True = Inr None"
    by (simp add: registry_of_three_def get_user_def find_one_def)
  have v: "message_count (hd (collection registry_of_three)) = 3"
          "total_messages_received (hd (collection registry_of_three)) = 10"
    by (simp_all add: registry_of_three_def)
  from increment_message_count_round_trip [OF c, of 1 "hd (collection registry_of_three)"
         "[10, 20, 30]" 0] g1 v
  have a: "fst (increment_repeatedly registry_of_three 1 [10, 20, 30]) = [Inr True, Inr True, Inr True]
   \<and> (\<exists>d'. get_user (snd (increment_repeatedly registry_of_three 1 [10, 20, 30])) 1 True
             = Inr (Some d')
           \<and> message_count d' = 6 \<and> total_messages_received d' = 13)"
    by (simp add: numeral_eq_Suc)
  from increment_message_count_round_trip [OF c, of 3 "hd (collection registry_of_three)" "[]" 10] g3
  have b: "increment_message_count registry_of_three 3 10 = (Inr False, registry_of_three)"
    by simp
  from a b show ?thesis by simp
qed

section \<open>Properties of the address generator\<close>

text \<open>An address that \<open>generate_unique_email\<close> returns is that of no stored entry.\<close>

lemma unique_email_attempts_fresh:
  "fst (unique_email_attempts m g pre n) = Inr addr \<Longrightarrow>
   connected m \<and> addr \<notin> set (map email (collection m))"
proof (induction n arbitrary: g)
  case 0
  then show ?case by simp
next
  case (Suc n)
  then show ?case
    by (auto simp: Let_def get_user_by_email_def find_one_def find_None_iff
             split: sum.splits option.splits if_splits)
qed

lemma generate_unique_email_fresh:
  "fst (generate_unique_email m g tid custom_prefix) = Inr addr \<Longrightarrow>
   connected m \<and> addr \<notin> set (map email (collection m))"
  unfolding generate_unique_email_def by (rule unique_email_attempts_fresh)

text \<open>
  When the cleaned custom prefix holds lower-case ASCII letters and digits only (and when
  no custom prefix is given), every address returned has the shape of the specification.
\<close>

lemma allowed_chars_lower_alnum: "list_all is_lower_alnum EMAIL_ALLOWED_CHARS"
  by (simp add: EMAIL_ALLOWED_CHARS_def is_lower_alnum_def)

lemma random_choices_from:
  "chars \<noteq> [] \<Longrightarrow> list_all P chars \<Longrightarrow>
   list_all P (fst (random_choices g chars k)) \<and> length (fst (random_choices g chars k)) = k"
proof (induction k arbitrary: g)
  case 0
  then show ?case by simp
next
  case (Suc k)
  have "chars ! (g 0 mod length chars) \<in> set chars"
    using Suc.prems(1) by simp
  then have "P (chars ! (g 0 mod length chars))"
    using Suc.prems(2) by (simp add: list_all_iff)
  with Suc show ?case by (simp add: random_choice_def)
qed

lemma generate_random_string_lower:
  "list_all is_lower_alnum (fst (generate_random_string g k True)) \<and>
   length (fst (generate_random_string g k True)) = k"
  unfolding generate_random_string_def
  using random_choices_from [of EMAIL_ALLOWED_CHARS is_lower_alnum g k] allowed_chars_lower_alnum
  by (simp add: EMAIL_ALLOWED_CHARS_def)

lemma pad_prefix_lower:
  "list_all is_lower_alnum s \<Longrightarrow> length s \<le> EMAIL_PREFIX_LENGTH \<Longrightarrow>
   list_all is_lower_alnum (fst (pad_prefix g s)) \<and>
   length (fst (pad_prefix g s)) = EMAIL_PREFIX_LENGTH"
proof (induction g s rule: pad_prefix.induct)
  case (1 g s)
  show ?case
  proof (cases "length s < EMAIL_PREFIX_LENGTH")
    case True
    have "EMAIL_ALLOWED_CHARS \<noteq> []"
      by (simp add: EMAIL_ALLOWED_CHARS_def)
    then have "fst (random_choice g EMAIL_ALLOWED_CHARS) \<in> set EMAIL_ALLOWED_CHARS"
      by (simp add: random_choice_def)
    then have "is_lower_alnum (fst (random_choice g EMAIL_ALLOWED_CHARS))"
      using allowed_chars_lower_alnum by (simp add: list_all_iff)
    with "1.prems" True have
      "list_all is_lower_alnum (s @ [fst (random_choice g EMAIL_ALLOWED_CHARS)])"
      "length (s @ [fst (random_choice g EMAIL_ALLOWED_CHARS)]) \<le> EMAIL_PREFIX_LENGTH"
      by simp_all
    from "1.IH" [OF True this] True show ?thesis
      by (subst pad_prefix.simps, subst (2) pad_prefix.simps) simp
  next
    case False
    with "1.prems" show ?thesis
      by (subst pad_prefix.simps, subst (2) pad_prefix.simps) simp
  qed
qed

lemma generate_user_prefix_lower:
  assumes "case custom_prefix of None \<Rightarrow> True
           | Some cp \<Rightarrow> list_all is_lower_alnum (filter py_isalnum (py_lower cp))"
  shows "list_all is_lower_alnum (fst (generate_user_prefix g custom_prefix)) \<and>
         length (fst (generate_user_prefix g custom_prefix)) = EMAIL_PREFIX_LENGTH"
proof (cases custom_prefix)
  case None
  then show ?thesis
    using generate_random_string_lower by (simp add: generate_user_prefix_def)
next
  case (Some cp)
  define clean where "clean = filter py_isalnum (py_lower cp)"
  have l: "list_all is_lower_alnum clean"
    using assms Some by (simp add: clean_def)
  show ?thesis
  proof (cases "cp = [] \<or> length clean = 0")
    case True
    then show ?thesis
      using Some generate_random_string_lower
      by (auto simp: generate_user_prefix_def clean_def Let_def EMAIL_PREFIX_LENGTH_def)
  next
    case False
    show ?thesis
    proof (cases "length clean > EMAIL_PREFIX_LENGTH")
      case True
      have "list_all is_lower_alnum (take EMAIL_PREFIX_LENGTH clean)"
        using l by (auto simp: list_all_iff dest: in_set_takeD)
      with True False Some show ?thesis
        by (simp add: generate_user_prefix_def clean_def [symmetric] Let_def)
    next
      case b: False
      then have "length clean \<le> EMAIL_PREFIX_LENGTH" by simp
      from pad_prefix_lower [OF l this, of g] b False Some show ?thesis
        by (simp add: generate_user_prefix_def clean_def [symmetric] Let_def)
    qed
  qed
qed

lemma unique_email_attempts_shape:
  "fst (unique_email_attempts m g pre n) = Inr addr \<Longrightarrow>
   \<exists>suffix. addr = pre @ ''_'' @ suffix @ ''@'' @ EMAIL_DOMAIN \<and>
            list_all is_lower_alnum suffix \<and> length suffix = EMAIL_RANDOM_LENGTH"
proof (induction n arbitrary: g)
  case 0
  then show ?case by simp
next
  case (Suc n)
  let ?g = "snd (generate_random_string g EMAIL_RANDOM_LENGTH True)"
  let ?c = "fst (generate_random_string g EMAIL_RANDOM_LENGTH True)"
  consider (again) "fst (unique_email_attempts m g pre (Suc n)) = fst (unique_email_attempts m ?g pre n)"
    | (found) "addr = pre @ ''_'' @ ?c @ ''@'' @ EMAIL_DOMAIN"
    using Suc.prems by (auto simp: Let_def split: sum.splits option.splits)
  then show ?case
  proof cases
    case again
    with Suc show ?thesis by simp
  next
    case found
    with generate_random_string_lower [of g EMAIL_RANDOM_LENGTH] show ?thesis by blast
  qed
qed

lemma matches_address_pattern_shape:
  assumes "pre \<noteq> []" "list_all is_lower_alnum pre"
      and "list_all is_lower_alnum suffix" "length suffix = EMAIL_RANDOM_LENGTH"
  shows "matches_address_pattern (pre @ ''_'' @ suffix @ ''@'' @ EMAIL_DOMAIN)"
proof -
  have u: "\<not> is_lower_alnum CHR ''_''"
    by (simp add: is_lower_alnum_def)
  have t: "takeWhile is_lower_alnum (pre @ ''_'' @ suffix @ ''@'' @ EMAIL_DOMAIN) = pre"
    using assms(2) u by (simp add: takeWhile_append2 list_all_iff)
  have d: "dropWhile is_lower_alnum (pre @ ''_'' @ suffix @ ''@'' @ EMAIL_DOMAIN)
             = ''_'' @ suffix @ ''@'' @ EMAIL_DOMAIN"
    using assms(2) u by (simp add: dropWhile_append2 list_all_iff)
  show ?thesis
    unfolding matches_address_pattern_def t d using assms by (simp add: Let_def)
qed

lemma generate_unique_email_ascii_shape:
  assumes "fst (generate_unique_email m g tid custom_prefix) = Inr addr"
      and "case custom_prefix of None \<Rightarrow> True
           | Some cp \<Rightarrow> list_all is_lower_alnum (filter py_isalnum (py_lower cp))"
  shows "matches_address_pattern addr"
proof -
  let ?pre = "fst (generate_user_prefix g custom_prefix)"
  from generate_user_prefix_lower [OF assms(2), of g]
  have p: "list_all is_lower_alnum ?pre" "?pre \<noteq> []"
    by (auto simp: EMAIL_PREFIX_LENGTH_def)
  from assms(1) obtain suffix where
    "addr = ?pre @ ''_'' @ suffix @ ''@'' @ EMAIL_DOMAIN"
    "list_all is_lower_alnum suffix" "length suffix = EMAIL_RANDOM_LENGTH"
    unfolding generate_unique_email_def using unique_email_attempts_shape by blast
  with p show ?thesis
    using matches_address_pattern_shape by simp
qed

text \<open>
  C3. Every address that the generator returns has the shape
  \<open>^[a-z0-9]+_[a-z0-9]{8}@seveton.site$\<close>, also for an arbitrary custom prefix.
  Evaluated on the code: for the custom prefix of three letters \<open>U+00E9\<close> (which the
  prefix handler and \<open>validate_custom_prefix\<close> both let through, since \<open>str.isalnum\<close>
  holds for the letter), on the empty Registry and with a random source that always draws
  index 0, the generator returns an address that begins with the three letters, and the
  address does not have the shape. An address with an ASCII prefix has it.
\<close>

theorem generate_unique_email_keeps_non_ascii_prefix:
  "fst (generate_unique_email empty_registry (\<lambda>i. 0) 42 (Some [CHR 0xE9, CHR 0xE9, CHR 0xE9]))
     = Inr ([CHR 0xE9, CHR 0xE9, CHR 0xE9] @ ''aaa_aaaaaaaa@seveton.site'')
   \<and> \<not> matches_address_pattern ([CHR 0xE9, CHR 0xE9, CHR 0xE9] @ ''aaa_aaaaaaaa@seveton.site'')
   \<and> matches_address_pattern ''abcxyz_a1b2c3d4@seveton.site''"
  by code_simp

section \<open>Properties of the message list\<close>

lemma fetch_each_concat:
  "fetch_each fetch uids =
     concat (map (\<lambda>u. case fetch u of Inr (Some m) \<Rightarrow> [m] | _ \<Rightarrow> []) uids)"
  by (induction uids) (auto split: sum.splits option.splits)

text \<open>
  For a limit of at least one, the UIDs fetched are the last \<open>limit\<close> of the search (all
  of them when there are fewer), the newest first, and a UID whose fetch fails or returns
  nothing is left out without touching the others.
\<close>

lemma fetch_message_list_positive_limit:
  assumes "0 < limit"
  shows "fetch_message_list (Inr uids) fetch limit =
           concat (map (\<lambda>u. case fetch u of Inr (Some m) \<Rightarrow> [m] | _ \<Rightarrow> [])
                     (rev (drop (length uids - nat limit) uids)))"
proof -
  have "int (length uids) > limit \<Longrightarrow>
          slice_from (- limit) uids = drop (length uids - nat limit) uids"
    using assms by (simp add: slice_from_def Let_def nat_diff_distrib')
  moreover have "\<not> int (length uids) > limit \<Longrightarrow> drop (length uids - nat limit) uids = uids"
    using assms by simp
  ultimately show ?thesis
    by (cases "uids = []") (auto simp: fetch_message_list_def fetch_each_concat)
qed

lemma fetch_message_list_scenario:
  "fetch_message_list (Inr [''1'', ''2'', ''3'']) (\<lambda>u. Inr (Some u)) 5 = [''3'', ''2'', ''1'']"
  "fetch_message_list (Inr [''1'', ''2'', ''3'']) (\<lambda>u. Inr (Some u)) 2 = [''3'', ''2'']"
  "fetch_message_list (Inr [''1'', ''2'', ''3''])
     (\<lambda>u. if u = ''3'' then Inl (PyException ''fetch failed'') else Inr (Some u)) 2 = [''2'']"
  by (simp_all add: fetch_message_list_def slice_from_def)

text \<open>
  C7. \<open>fetch_message_list\<close> fetches at most the last \<open>limit\<close> UIDs of the search, for
  every limit. Evaluated on the code: the search returns the UIDs 1, 2, 3, every fetch
  succeeds (a message is written as its UID), and the limit is 0. The test
  \<open>len(uids) > limit\<close> holds and \<open>uids[-0:]\<close> is the whole list, so all three messages
  are fetched and returned where the claim allows none.
\<close>

theorem fetch_message_list_limit_zero:
  "fetch_message_list (Inr [''1'', ''2'', ''3'']) (\<lambda>u. Inr (Some u)) 0 = [''3'', ''2'', ''1'']"
  by (simp add: fetch_message_list_def slice_from_def)

section \<open>Properties of the renderings\<close>

lemma slice_to_length: "0 \<le> i \<Longrightarrow> int (length (slice_to i xs)) \<le> i"
  by (simp add: slice_to_def Let_def)

text \<open>
  C9. The text preview that \<open>format_message_preview\<close> takes from \<open>_create_text_preview\<close>
  is never longer than the preview length plus the three characters of the ellipsis, for
  every body text and every preview length from 7 on (the configured length is 200; for an
  empty body the preview is the ten characters \<open>No content\<close>).
\<close>

theorem create_text_preview_length:
  assumes "7 \<le> max_length"
  shows "int (length (create_text_preview text max_length)) \<le> max_length + 3"
proof (cases "text = []")
  case True
  with assms show ?thesis by (simp add: create_text_preview_def)
next
  case False
  define p where
    "p = join [CHR 0x0A]
           (preview_lines max_length (split_lines (collapse_whitespace (py_strip text))) [])"
  have r: "create_text_preview text max_length =
        (if int (length p) > max_length then slice_to (max_length - 3) p @ ''...'' else p)"
    using False by (simp add: create_text_preview_def p_def Let_def)
  show ?thesis
  proof (cases "int (length p) > max_length")
    case True
    have "int (length (slice_to (max_length - 3) p)) \<le> max_length - 3"
      using assms by (intro slice_to_length) simp
    with True r show ?thesis by simp
  next
    case False
    with r show ?thesis by simp
  qed
qed

theorem create_text_preview_length_witness:
  "int (length (create_text_preview (replicate 10000 (CHR ''a'')) 200)) \<le> 200 + 3"
  by (rule create_text_preview_length) simp

text \<open>
  Two more inputs of the cleaner, evaluated: an event handler whose value is not quoted
  stays in its tag, and the text of a \<open>script\<close> block whose closing tag has a space before
  \<open>>\<close> stays in the output (only the two tags go).
\<close>

lemma clean_html_content_keeps_unquoted_handler:
  "clean_html_content ''<a onclick=x>'' = ''<a onclick=x>''"
  by code_simp

lemma clean_html_content_keeps_script_text:
  "clean_html_content ''<script>x</script >'' = ''x''"
  by code_simp

text \<open>
  C8. The HTML cleaner removes every tag outside the allow-list and leaves the tags of
  the allow-list in place. Evaluated on the code: in \<open><b>x</b>\<close> the closing tag of
  the allowed \<open>b\<close> is removed, because the look-ahead of the last pattern stands before
  the optional slash and so never sees the name of a closing tag.
\<close>

theorem clean_html_content_drops_closing_tag:
  "clean_html_content ''<b>x</b>'' = ''<b>x''"
  by code_simp

section \<open>Properties of the message parser\<close>

lemma extract_attachment_Some:
  "extract_attachment lib p = Some a \<Longrightarrow>
   (\<exists>fname data. filename p = Inr (Some fname) \<and> fname \<noteq> [] \<and>
      payload p = Inr (Some data) \<and> data \<noteq> [] \<and> att_data a = data \<and> att_size a = length data)"
  by (auto simp: extract_attachment_def split: sum.splits option.splits if_splits)

lemma extract_parts_attachments:
  "a \<in> set (snd (snd (snd (extract_parts lib ps vars)))) \<Longrightarrow>
   a \<in> set (snd (snd vars)) \<or>
   (\<exists>p \<in> set ps. contains (get p ''Content-Disposition'' []) ''attachment'' \<and>
                  extract_attachment lib p = Some a)"
proof (induction lib ps vars rule: extract_parts.induct)
  case (1 lib vars)
  then show ?case by simp
next
  case (2 lib p ps bt bh ats)
  then show ?case
    by (auto split: if_splits option.splits sum.splits)
qed

lemma extract_single_attachments: "snd (snd (snd (extract_single lib p))) = []"
  by (simp add: extract_single_def split: sum.splits option.splits)

lemma extract_body_attachments_single:
  "\<not> is_multipart msg \<Longrightarrow> snd (snd (extract_body_and_attachments lib msg)) = []"
  using extract_single_attachments [of lib "root msg"]
  by (cases "extract_single lib (root msg)")
     (auto simp: extract_body_and_attachments_def split: option.splits)

lemma extract_body_attachments_multi:
  assumes "a \<in> set (snd (snd (extract_body_and_attachments lib msg)))"
  shows "is_multipart msg \<and>
         (\<exists>p \<in> set (walk msg). contains (get p ''Content-Disposition'' []) ''attachment'' \<and>
                  extract_attachment lib p = Some a)"
proof (cases "is_multipart msg")
  case False
  with assms extract_body_attachments_single show ?thesis by simp
next
  case True
  obtain err bt bh ats where
    r: "extract_parts lib (walk msg) ([], [], []) = (err, bt, bh, ats)"
    by (metis prod_cases4)
  have "a \<in> set ats"
    using assms True r by (auto simp: extract_body_and_attachments_def split: option.splits)
  then have "a \<in> set (snd (snd (snd (extract_parts lib (walk msg) ([], [], [])))))"
    using r by simp
  from extract_parts_attachments [OF this] True show ?thesis by simp
qed

lemma parse_attachments:
  "parse_email_message lib now msg u = Inr md \<Longrightarrow>
   attachments md = [] \<or> attachments md = snd (snd (extract_body_and_attachments lib msg))"
  by (auto simp: parse_email_message_def parse_email_message_try_def Let_def split: sum.splits)

lemma parse_has_attachments:
  "parse_email_message lib now msg u = Inr md \<Longrightarrow> has_attachments md = (attachments md \<noteq> [])"
  by (auto simp: parse_email_message_def parse_email_message_try_def Let_def split: sum.splits)

lemma parse_total: "\<exists>md. parse_email_message lib now msg u = Inr md"
  by (simp add: parse_email_message_def split: sum.splits)

lemma parse_email_message_try_raises:
  "(\<exists>e. parse_email_message_try lib now msg u = Inl e) \<longleftrightarrow>
   (\<exists>e. as_string (root msg) = Inl e)"
  by (auto simp: parse_email_message_try_def Let_def split: sum.splits)

text \<open>
  The claim C4 as it is written, that every failure inside the parser gives a dictionary
  with \<open>parse_error\<close>, does not hold: the text part declares a character set that
  \<open>bytes.decode\<close> does not know, the \<open>LookupError\<close> is caught inside
  \<open>_extract_body_and_attachments\<close>, and the parser returns an ordinary dictionary, without
  \<open>parse_error\<close>, whose body text is the message of the exception.
\<close>

theorem parse_email_message_absorbs_decoding_failure:
  "decoded_text strict_library odd_charset_part = Inl (PyException ''unknown encoding: x-unknown'')
   \<and> parse_email_message strict_library 0 (Single odd_charset_part) ''7'' =
       Inr \<lparr>uid = ''7'', subject = [], sender = [], sender_email = Some [],
            to_header = Some [], date = Some 0, date_str = Some [], message_id = Some [],
            body_text = ''Error extracting email content: unknown encoding: x-unknown'',
            body_html = Some [], attachments = [], has_attachments = False,
            attachment_count = 0, message_size = Some 5, parse_error = False\<rparr>"
  by (simp add: parse_email_message_def parse_email_message_try_def
        extract_body_and_attachments_def extract_single_def decoded_text_def
        decode_header_value_def parse_date_def extract_email_from_header_def get_def
        strict_library_def odd_charset_part_def Let_def)

text \<open>
  C4, amended. The parser never raises: whatever the message is and whatever the library
  calls return or raise, \<open>_parse_email_message\<close> returns a dictionary for the UID it was
  given. The dictionary has \<open>parse_error\<close> exactly when an exception leaves the body of
  the \<open>try\<close>, which is exactly when rendering the message as a string raises; it is then
  the degraded one, which carries the text of the exception and no attachment. An
  exception inside header decoding, date parsing, address extraction or the extraction of
  body and attachments is caught there and leaves an ordinary dictionary.
\<close>

theorem parse_email_message_never_raises:
  "\<exists>md. parse_email_message lib now msg u = Inr md \<and> uid md = u \<and>
        (parse_error md \<longleftrightarrow> (\<exists>e. parse_email_message_try lib now msg u = Inl e)) \<and>
        (parse_error md \<longleftrightarrow> (\<exists>e. as_string (root msg) = Inl e)) \<and>
        (\<forall>e. parse_email_message_try lib now msg u = Inl e \<longrightarrow>
           subject md = ''Parse Error'' \<and> sender md = ''Unknown'' \<and>
           body_text md = ''Error parsing email: '' @ str_of_error e \<and>
           attachments md = [] \<and> \<not> has_attachments md \<and> attachment_count md = 0)"
proof -
  have "\<exists>md. parse_email_message lib now msg u = Inr md \<and> uid md = u \<and>
        (parse_error md \<longleftrightarrow> (\<exists>e. parse_email_message_try lib now msg u = Inl e)) \<and>
        (\<forall>e. parse_email_message_try lib now msg u = Inl e \<longrightarrow>
           subject md = ''Parse Error'' \<and> sender md = ''Unknown'' \<and>
           body_text md = ''Error parsing email: '' @ str_of_error e \<and>
           attachments md = [] \<and> \<not> has_attachments md \<and> attachment_count md = 0)"
    by (auto simp: parse_email_message_def parse_email_message_try_def Let_def
             split: sum.splits)
  then obtain md where m:
    "parse_email_message lib now msg u = Inr md"
    "uid md = u"
    "parse_error md \<longleftrightarrow> (\<exists>e. parse_email_message_try lib now msg u = Inl e)"
    "\<forall>e. parse_email_message_try lib now msg u = Inl e \<longrightarrow>
           subject md = ''Parse Error'' \<and> sender md = ''Unknown'' \<and>
           body_text md = ''Error parsing email: '' @ str_of_error e \<and>
           attachments md = [] \<and> \<not> has_attachments md \<and> attachment_count md = 0"
    by blast
  have "parse_error md \<longleftrightarrow> (\<exists>e. as_string (root msg) = Inl e)"
    using m(3) parse_email_message_try_raises [of lib now msg u] by simp
  with m show ?thesis by blast
qed

theorem parse_email_message_never_raises_witness:
  "\<exists>md. parse_email_message plain_library 0 (Single broken_part) ''7'' = Inr md
        \<and> uid md = ''7'' \<and> parse_error md
        \<and> body_text md = ''Error parsing email: string payload expected''"
proof -
  have t: "parse_email_message_try plain_library 0 (Single broken_part) ''7''
             = Inl (PyException ''string payload expected'')"
    by (simp add: parse_email_message_try_def broken_part_def Let_def)
  from parse_email_message_never_raises [of plain_library 0 "Single broken_part" "''7''"]
  obtain md where
    "parse_email_message plain_library 0 (Single broken_part) ''7'' = Inr md"
    "uid md = ''7''"
    "parse_error md \<longleftrightarrow>
       (\<exists>e. parse_email_message_try plain_library 0 (Single broken_part) ''7'' = Inl e)"
    "\<forall>e. parse_email_message_try plain_library 0 (Single broken_part) ''7'' = Inl e \<longrightarrow>
       body_text md = ''Error parsing email: '' @ str_of_error e"
    by blast
  with t show ?thesis by simp
qed

text \<open>
  C10. Every attachment that \<open>_extract_body_and_attachments\<close> returns comes from a part of
  a multipart message whose \<open>Content-Disposition\<close> contains \<open>attachment\<close>, which declares
  a non-empty file name and whose decoded payload is not empty. For a message that is not
  multipart the parsed dictionary has no attachment and \<open>has_attachments\<close> is false,
  whatever its headers declare.
\<close>

theorem attachments_only_from_multipart:
  "(\<forall>a \<in> set (snd (snd (extract_body_and_attachments lib msg))).
      is_multipart msg \<and>
      (\<exists>p \<in> set (walk msg). contains (get p ''Content-Disposition'' []) ''attachment'' \<and>
         (\<exists>fname data. filename p = Inr (Some fname) \<and> fname \<noteq> [] \<and>
            payload p = Inr (Some data) \<and> data \<noteq> [] \<and> extract_attachment lib p = Some a)))
   \<and> (\<not> is_multipart msg \<longrightarrow>
        (\<exists>md. parse_email_message lib now msg u = Inr md \<and> attachments md = [] \<and>
              \<not> has_attachments md))"
proof (rule conjI)
  show "\<forall>a \<in> set (snd (snd (extract_body_and_attachments lib msg))).
      is_multipart msg \<and>
      (\<exists>p \<in> set (walk msg). contains (get p ''Content-Disposition'' []) ''attachment'' \<and>
         (\<exists>fname data. filename p = Inr (Some fname) \<and> fname \<noteq> [] \<and>
            payload p = Inr (Some data) \<and> data \<noteq> [] \<and> extract_attachment lib p = Some a))"
  proof (rule ballI)
    fix a assume "a \<in> set (snd (snd (extract_body_and_attachments lib msg)))"
    from extract_body_attachments_multi [OF this]
    show "is_multipart msg \<and>
      (\<exists>p \<in> set (walk msg). contains (get p ''Content-Disposition'' []) ''attachment'' \<and>
         (\<exists>fname data. filename p = Inr (Some fname) \<and> fname \<noteq> [] \<and>
            payload p = Inr (Some data) \<and> data \<noteq> [] \<and> extract_attachment lib p = Some a))"
      using extract_attachment_Some by blast
  qed
next
  show "\<not> is_multipart msg \<longrightarrow>
        (\<exists>md. parse_email_message lib now msg u = Inr md \<and> attachments md = [] \<and>
              \<not> has_attachments md)"
  proof (rule impI)
    assume s: "\<not> is_multipart msg"
    obtain md where md: "parse_email_message lib now msg u = Inr md"
      using parse_total by blast
    have e: "attachments md = []"
      using parse_attachments [OF md] extract_body_attachments_single [OF s] by auto
    have "\<not> has_attachments md"
      using parse_has_attachments [OF md] e by simp
    with md e show "\<exists>md. parse_email_message lib now msg u = Inr md \<and> attachments md = [] \<and>
              \<not> has_attachments md"
      by blast
  qed
qed

theorem attachments_only_from_multipart_witness:
  "contains (get file_part ''Content-Disposition'' []) ''attachment''
   \<and> filename file_part = Inr (Some ''a.txt'')
   \<and> \<not> is_multipart (Single file_part)
   \<and> (\<exists>md. parse_email_message plain_library 0 (Single file_part) ''1'' = Inr md
            \<and> attachments md = [] \<and> \<not> has_attachments md)
   \<and> map att_filename
        (snd (snd (extract_body_and_attachments plain_library
                     (Multipart container_part [Single file_part])))) = [''a.txt'']
   \<and> is_multipart (Multipart container_part [Single file_part])"
proof -
  have c: "contains (get file_part ''Content-Disposition'' []) ''attachment''"
    by (simp add: file_part_def get_def startswith_def)
  have x: "extract_attachment plain_library file_part =
             Some \<lparr>att_filename = ''a.txt'', att_content_type = ''application/pdf'',
                   att_size = 4, att_data = ''%PDF'', is_image = False, is_pdf = True,
                   is_document = True\<rparr>"
    by (simp add: extract_attachment_def file_part_def plain_library_def
          decode_header_value_def py_strip_def py_isspace_def startswith_def)
  have n: "\<not> contains (get container_part ''Content-Disposition'' []) ''attachment''"
    by (simp add: container_part_def get_def)
  have m: "snd (snd (extract_body_and_attachments plain_library
                       (Multipart container_part [Single file_part])))
           = [\<lparr>att_filename = ''a.txt'', att_content_type = ''application/pdf'',
                att_size = 4, att_data = ''%PDF'', is_image = False, is_pdf = True,
                is_document = True\<rparr>]"
    using c x n by (simp add: extract_body_and_attachments_def container_part_def)
  have "is_multipart (Multipart container_part [Single file_part])"
    using attachments_only_from_multipart
            [of plain_library "Multipart container_part [Single file_part]" 0 "''1''"] m
    by simp
  moreover have "\<exists>md. parse_email_message plain_library 0 (Single file_part) ''1'' = Inr md
            \<and> attachments md = [] \<and> \<not> has_attachments md"
    using attachments_only_from_multipart [of plain_library "Single file_part" 0 "''1''"]
    by simp
  ultimately show ?thesis using c m by (simp add: file_part_def)
qed

end
